theory Spec2Isabelle
  imports Main
begin

section \<open>Python values and helpers\<close>

text \<open>
  A Python \<open>str\<close> and a \<open>bytes\<close> value are both a \<^typ>\<open>string\<close>. An exception that is
  not an \<open>HTTPException\<close> is kept by its message, the text \<open>str(e)\<close> that the handlers
  format into their replies.
\<close>

type_synonym exn = string

text \<open>
  A JSON-compatible Python value: \<open>None\<close>, \<open>bool\<close>, \<open>int\<close>, \<open>float\<close>, \<open>str\<close>, \<open>list\<close>,
  \<open>dict\<close>. The program never computes with a float, so a float is kept by its \<open>repr\<close>.
  A \<open>dict\<close> is the list of its items in insertion order.
\<close>

datatype json =
    JNull
  | JBool bool
  | JInt int
  | JFloat string
  | JString string
  | JArray "json list"
  | JObject "(string \<times> json) list"

text \<open>
  \<open>v[key]\<close> behind the test \<open>isinstance(v, dict) and key in v\<close>: the value under the key,
  or \<open>None\<close> where the test fails.
\<close>

fun getitem :: "json \<Rightarrow> string \<Rightarrow> json option" where
  "getitem (JObject items) key = map_of items key"
| "getitem _ key = None"

text \<open>\<open>str(n)\<close> of a non-negative \<open>int\<close>.\<close>

fun str_nat :: "nat \<Rightarrow> string" where
  "str_nat n =
     (if n < 10 then [char_of (48 + n)]
      else str_nat (n div 10) @ [char_of (48 + n mod 10)])"

declare str_nat.simps [simp del]

text \<open>An \<open>Optional[str]\<close> inside an f-string: \<open>None\<close> prints as \<open>None\<close>.\<close>

fun fmt :: "string option \<Rightarrow> string" where
  "fmt None = ''None''"
| "fmt (Some s) = s"

text \<open>
  \<open>str.strip()\<close> with no argument removes the characters for which \<open>str.isspace\<close> holds;
  below code point 256 these are 9 to 13, 28 to 32, 133 and 160.
\<close>

definition isspace :: "char \<Rightarrow> bool" where
  "isspace c =
     (let n = (of_char c :: nat)
      in (9 \<le> n \<and> n \<le> 13) \<or> (28 \<le> n \<and> n \<le> 32) \<or> n = 133 \<or> n = 160)"

definition strip :: "string \<Rightarrow> string" where
  "strip s = rev (dropWhile isspace (rev (dropWhile isspace s)))"

definition startswith :: "string \<Rightarrow> string \<Rightarrow> bool" where
  "startswith s p = (take (length p) s = p)"

definition endswith :: "string \<Rightarrow> string \<Rightarrow> bool" where
  "endswith s p = (length p \<le> length s \<and> drop (length s - length p) s = p)"

text \<open>\<open>sep.join(parts)\<close>.\<close>

fun join :: "string \<Rightarrow> string list \<Rightarrow> string" where
  "join sep [] = []"
| "join sep [p] = p"
| "join sep (p # q # ps) = p @ sep @ join sep (q # ps)"

section \<open>Effects, requests and replies\<close>

text \<open>
  Every function returns, beside its value, the effects it had on its surroundings, in
  order: a read of an uploaded file (named by the file's \<open>filename\<close>), the closing of the
  byte stream built from a read, and a call to the generation service (model name and
  prompt). Logging is not modelled: no value and no branch of the program depends on it.
\<close>

datatype event =
    Read "string option"
  | Close
  | GenerateContent string string

text \<open>
  \<open>HTTPException(status_code, detail)\<close> and \<open>JSONResponse(status_code, content)\<close>. The detail
  is a JSON value: the handlers pass strings, and \<open>process_query\<close> passes whatever stands
  under the key \<open>error\<close>.
\<close>

datatype HTTPException = HTTPException (status_code: nat) (detail: json)

datatype JSONResponse = JSONResponse (response_status: nat) (response_content: json)

text \<open>
  An \<open>UploadFile\<close>: its \<open>filename\<close> and \<open>content_type\<close> are \<open>Optional[str]\<close>; \<open>read\<close> is what
  \<open>await file.read()\<close> does, raising (\<open>Inl\<close>) or giving the bytes.
\<close>

record UploadFile =
  filename :: "string option"
  content_type :: "string option"
  read :: "exn + string"

section \<open>The libraries and the process environment\<close>

text \<open>
  What the repository calls but does not define is a parameter of the model:
  \<^item> \<open>GEMINI_API_KEY\<close>: the value of \<open>os.getenv\<close> at import time;
  \<^item> \<open>PdfReader\<close>: PyPDF2 on a byte stream, raising or giving the pages, each page's
    \<open>extract_text()\<close> raising or giving its text;
  \<^item> \<open>Document\<close>: python-docx on a byte stream, raising or giving the paragraphs' texts;
  \<^item> \<open>json_loads\<close>: \<open>json.loads\<close> on a \<open>str\<close>, returning a value, raising
    \<open>JSONDecodeError\<close>, or raising another exception; \<open>json_loads_bytes\<close>: the same on
    \<open>bytes\<close>, which the library decodes first;
  \<^item> \<open>json_dumps\<close>: \<open>json.dumps(value, indent=2)\<close>;
  \<^item> \<open>generate_content_async\<close>: the generation service on a model name and a prompt,
    raising or giving a response. Of a response the program reads whether \<open>candidates\<close>
    is empty (here their number), \<open>prompt_feedback\<close> if the attribute exists, and \<open>text\<close>,
    which raises when the first candidate holds no text.
\<close>

datatype loads_result = Value json | JSONDecodeError | Raises exn

record GenerateContentResponse =
  candidates :: nat
  prompt_feedback :: "string option"
  response_text :: "exn + string"

record env =
  GEMINI_API_KEY :: "string option"
  PdfReader :: "string \<Rightarrow> exn + (exn + string) list"
  Document :: "string \<Rightarrow> exn + string list"
  json_loads :: "string \<Rightarrow> loads_result"
  json_loads_bytes :: "string \<Rightarrow> loads_result"
  json_dumps :: "json \<Rightarrow> string"
  generate_content_async :: "string \<Rightarrow> string \<Rightarrow> exn + GenerateContentResponse"

section \<open>app/utils.py: text extraction\<close>

definition SUPPORTED_DOC_TYPES :: "string list" where
  "SUPPORTED_DOC_TYPES =
     [''application/pdf'',
      ''application/vnd.openxmlformats-officedocument.wordprocessingml.document'']"

text \<open>
  The loop of \<open>extract_text_from_pdf\<close> over \<open>reader.pages\<close>, with \<open>text\<close> as accumulator.
  A page whose \<open>extract_text()\<close> raises ends the loop with that exception.
\<close>

fun pdf_pages :: "(exn + string) list \<Rightarrow> string \<Rightarrow> exn + string" where
  "pdf_pages [] text = Inr text"
| "pdf_pages (Inl e # pages) text = Inl e"
| "pdf_pages (Inr page_text # pages) text =
     pdf_pages pages (if page_text \<noteq> [] then text @ page_text @ ''\<newline>'' else text)"

text \<open>The \<open>except Exception\<close> of \<open>extract_text_from_pdf\<close> returns the empty string.\<close>

definition extract_text_from_pdf :: "env \<Rightarrow> string \<Rightarrow> string" where
  "extract_text_from_pdf env file_stream =
     (case PdfReader env file_stream of
        Inl e \<Rightarrow> []
      | Inr pages \<Rightarrow>
          (case pdf_pages pages [] of
             Inl e \<Rightarrow> []
           | Inr text \<Rightarrow> strip text))"

fun docx_paragraphs :: "string list \<Rightarrow> string \<Rightarrow> string" where
  "docx_paragraphs [] text = text"
| "docx_paragraphs (para # paragraphs) text =
     docx_paragraphs paragraphs (text @ para @ ''\<newline>'')"

definition extract_text_from_docx :: "env \<Rightarrow> string \<Rightarrow> string" where
  "extract_text_from_docx env file_stream =
     (case Document env file_stream of
        Inl e \<Rightarrow> []
      | Inr paragraphs \<Rightarrow> strip (docx_paragraphs paragraphs []))"

text \<open>
  \<open>extract_text_from_upload\<close>. The membership test comes first; the read, the dispatch on
  the content type and the closing of the stream follow inside the \<open>try\<close>. The two
  extractors catch every exception themselves, so only a failing read reaches the
  \<open>except Exception\<close> that answers 500.
\<close>

definition extract_text_from_upload ::
  "env \<Rightarrow> UploadFile \<Rightarrow> (HTTPException + string) \<times> event list" where
  "extract_text_from_upload env file =
     (if content_type file \<notin> set (map Some SUPPORTED_DOC_TYPES) then
        (Inl (HTTPException 400 (JString (''Unsupported file type: ''
                @ fmt (content_type file) @ ''. Please upload PDF or DOCX.''))),
         [])
      else
        (case read file of
           Inl e \<Rightarrow>
             (Inl (HTTPException 500 (JString (''Error processing file ''
                     @ fmt (filename file) @ '': '' @ e))),
              [Read (filename file)])
         | Inr content \<Rightarrow>
             (let text =
                (if content_type file = Some ''application/pdf'' then
                   extract_text_from_pdf env content
                 else if content_type file = Some
                   ''application/vnd.openxmlformats-officedocument.wordprocessingml.document''
                 then extract_text_from_docx env content
                 else [])
              in (Inr text, [Read (filename file), Close]))))"

section \<open>app/utils.py: the JSON upload\<close>

definition parse_json_upload ::
  "env \<Rightarrow> UploadFile \<Rightarrow> (HTTPException + json) \<times> event list" where
  "parse_json_upload env file =
     (if content_type file \<noteq> Some ''application/json'' then
        (Inl (HTTPException 400
                (JString (''JSON file must have content type 'application/json'' @ [CHR 0x27]))),
         [])
      else
        (case read file of
           Inl e \<Rightarrow>
             (Inl (HTTPException 500 (JString (''Error processing JSON file ''
                     @ fmt (filename file) @ '': '' @ e))),
              [Read (filename file)])
         | Inr content \<Rightarrow>
             (case json_loads_bytes env content of
                Value json_data \<Rightarrow> (Inr json_data, [Read (filename file)])
              | JSONDecodeError \<Rightarrow>
                  (Inl (HTTPException 400 (JString ''Invalid JSON file format'')),
                   [Read (filename file)])
              | Raises e \<Rightarrow>
                  (Inl (HTTPException 500 (JString (''Error processing JSON file ''
                          @ fmt (filename file) @ '': '' @ e))),
                   [Read (filename file)]))))"

section \<open>app/models.py and app/crud.py: the store\<close>

text \<open>
  A row of the table \<open>training_pairs\<close>; \<open>pair_id\<close> is the column \<open>id\<close>. A session holds the
  committed rows in the order of their creation. Whether the database fails is not in
  the program's hands: \<open>commit_error\<close>, \<open>refresh_error\<close> and \<open>query_error\<close> hold the
  exception that a commit, a refresh or a query of this session raises, if any.
\<close>

record TrainingPair =
  pair_id :: nat
  text_content :: string
  json_data :: json
  original_filename :: "string option"

record Session =
  rows :: "TrainingPair list"
  commit_error :: "exn option"
  refresh_error :: "exn option"
  query_error :: "exn option"

text \<open>The key the database gives a new row: one more than the largest key so far.\<close>

definition next_id :: "TrainingPair list \<Rightarrow> nat" where
  "next_id rs = Suc (fold max (map pair_id rs) 0)"

text \<open>
  \<open>create_training_pair\<close>: add, commit, refresh; on an exception roll back and re-raise.
  A commit that raises leaves the rows as they were. A refresh that raises comes after
  the commit: the row stays in the table, and the call raises all the same.
\<close>

definition create_training_pair ::
  "Session \<Rightarrow> string \<Rightarrow> json \<Rightarrow> string option \<Rightarrow> (exn + TrainingPair) \<times> Session" where
  "create_training_pair db text json original =
     (case commit_error db of
        Some e \<Rightarrow> (Inl e, db)
      | None \<Rightarrow>
          (let db_pair = \<lparr>pair_id = next_id (rows db), text_content = text,
                 json_data = json, original_filename = original\<rparr>;
               committed = db\<lparr>rows := rows db @ [db_pair]\<rparr>
           in case refresh_error db of
                Some e \<Rightarrow> (Inl e, committed)
              | None \<Rightarrow> (Inr db_pair, committed)))"

text \<open>
  The query \<open>db.query(TrainingPair).order_by(TrainingPair.id.desc()).limit(limit).all()\<close>.
  The limit is a Python \<open>int\<close>, handed to the database as it is. The driver binds it as
  a 64-bit integer and raises \<open>OverflowError\<close> on a value outside that range; SQLite reads
  a negative \<open>LIMIT\<close> as no limit.
\<close>

definition query_recent :: "Session \<Rightarrow> int \<Rightarrow> exn + TrainingPair list" where
  "query_recent db limit =
     (case query_error db of
        Some e \<Rightarrow> Inl e
      | None \<Rightarrow>
          if limit < - 9223372036854775808 \<or> 9223372036854775807 < limit
          then Inl ''Python int too large to convert to SQLite INTEGER''
          else Inr (if limit < 0 then rev (sort_key pair_id (rows db))
                    else take (nat limit) (rev (sort_key pair_id (rows db)))))"

text \<open>\<open>get_training_examples\<close>: the \<open>except Exception\<close> returns the empty list.\<close>

definition get_training_examples :: "Session \<Rightarrow> int \<Rightarrow> TrainingPair list" where
  "get_training_examples db limit =
     (case query_recent db limit of
        Inl e \<Rightarrow> []
      | Inr examples \<Rightarrow> examples)"

definition get_all_training_pairs :: "Session \<Rightarrow> TrainingPair list" where
  "get_all_training_pairs db =
     (case query_error db of
        Some e \<Rightarrow> []
      | None \<Rightarrow> sort_key pair_id (rows db))"

section \<open>app/utils.py: the prompt and the generation\<close>

text \<open>
  The five entries \<open>prompt_parts\<close> starts with, and the entry that stands for an empty
  list of examples.
\<close>

definition prompt_preamble :: "string list" where
  "prompt_preamble =
     [''You are an assistant that analyzes text documents and generates structured JSON output based on the content.'',
      ''Follow the format of the examples provided.'',
      ''Given the following text input, generate the corresponding JSON object.'',
      ''Output ONLY the JSON object itself, without any introductory text, explanation, or markdown formatting like ```json.'',
      ''\<newline>--- Examples ---'']"

definition no_examples_sentence :: string where
  "no_examples_sentence =
     ''\<newline>No examples provided. Analyze the input text and generate a suitable JSON structure.''"

text \<open>
  The loop \<open>for i, example in enumerate(examples)\<close>, which appends five entries to
  \<open>prompt_parts\<close> for each example; \<open>i\<close> is the index of the first example of the list.
\<close>

fun append_examples :: "env \<Rightarrow> nat \<Rightarrow> TrainingPair list \<Rightarrow> string list \<Rightarrow> string list" where
  "append_examples env i [] prompt_parts = prompt_parts"
| "append_examples env i (example # examples) prompt_parts =
     append_examples env (i + 1) examples
       (prompt_parts @
        [''\<newline>Example '' @ str_nat (i + 1) @ '':'',
         ''Input Text:'',
         ''```\<newline>'' @ text_content example @ ''\<newline>```'',
         ''Output JSON:'',
         ''```json\<newline>'' @ json_dumps env (json_data example) @ ''\<newline>```''])"

definition prompt_parts :: "env \<Rightarrow> string \<Rightarrow> TrainingPair list \<Rightarrow> string list" where
  "prompt_parts env input_text examples =
     (if examples = [] then prompt_preamble @ [no_examples_sentence]
      else append_examples env 0 examples prompt_preamble)
     @ [''\<newline>--- New Input Text ---'',
        ''```\<newline>'' @ input_text @ ''\<newline>```'',
        ''\<newline>--- Generated JSON Output ---'']"

definition full_prompt :: "env \<Rightarrow> string \<Rightarrow> TrainingPair list \<Rightarrow> string" where
  "full_prompt env input_text examples = join ''\<newline>'' (prompt_parts env input_text examples)"

text \<open>
  The two reassignments of \<open>generated_content\<close> that remove the fence markers:
  \<open>strip()[7:]\<close> after a leading \<open>```json\<close>, then \<open>strip()[:-3]\<close> before a trailing \<open>```\<close>.
\<close>

definition remove_fences :: "string \<Rightarrow> string" where
  "remove_fences generated_content =
     (let c1 = (if startswith (strip generated_content) ''```json''
                then drop 7 (strip generated_content) else generated_content)
      in if endswith (strip c1) ''```''
         then take (length (strip c1) - 3) (strip c1) else c1)"

text \<open>The payloads that \<open>generate_json_with_gemini\<close> returns in place of a generated value.\<close>

definition error_payload :: "string \<Rightarrow> json" where
  "error_payload message = JObject [(''error'', JString message)]"

definition error_payload_raw :: "string \<Rightarrow> string \<Rightarrow> json" where
  "error_payload_raw message raw =
     JObject [(''error'', JString message), (''raw_response'', JString raw)]"

text \<open>
  \<open>generate_json_with_gemini\<close>. An exception of the service call or of \<open>response.text\<close>
  reaches the outer \<open>except Exception\<close>; \<open>json.loads\<close> stands in the inner \<open>try\<close>, whose two
  handlers return the payload with \<open>raw_response\<close>.
\<close>

definition generate_json_with_gemini ::
  "env \<Rightarrow> string \<Rightarrow> TrainingPair list \<Rightarrow> string \<Rightarrow> json \<times> event list" where
  "generate_json_with_gemini env input_text examples model_name =
     (if GEMINI_API_KEY env = None \<or> GEMINI_API_KEY env = Some [] then
        (error_payload ''Gemini API key not configured on server.'', [])
      else
        (let prompt = full_prompt env input_text examples;
             called = [GenerateContent model_name prompt]
         in case generate_content_async env model_name prompt of
              Inl e \<Rightarrow>
                (error_payload
                   (''An error occurred while communicating with the AI service: '' @ e),
                 called)
            | Inr response \<Rightarrow>
                if candidates response = 0 then
                  (error_payload (''Content generation blocked. Feedback: ''
                     @ (case prompt_feedback response of
                          Some feedback \<Rightarrow> feedback
                        | None \<Rightarrow> ''No feedback available'')),
                   called)
                else
                  (case response_text response of
                     Inl e \<Rightarrow>
                       (error_payload
                          (''An error occurred while communicating with the AI service: '' @ e),
                        called)
                   | Inr text \<Rightarrow>
                       (let generated_content = remove_fences text
                        in case json_loads env (strip generated_content) of
                             Value generated_json \<Rightarrow> (generated_json, called)
                           | JSONDecodeError \<Rightarrow>
                               (error_payload_raw ''Failed to parse JSON from AI response.''
                                  generated_content,
                                called)
                           | Raises e \<Rightarrow>
                               (error_payload_raw
                                  (''An unexpected error occurred while processing the AI response: ''
                                     @ e)
                                  generated_content,
                                called)))))"

section \<open>app/main.py: the two handlers\<close>

text \<open>
  Two things that the framework does when the handlers build their replies.
  \<open>JSONResponse(content)\<close> renders its content at once, with \<open>allow_nan=False\<close>: a content
  that holds a float \<open>nan\<close>, \<open>inf\<close> or \<open>-inf\<close> anywhere makes the constructor raise
  \<open>ValueError\<close>. \<open>HTTPException(status_code=500, detail=None)\<close> takes the phrase of the
  status as its detail. The rendering also encodes the text to UTF-8, which raises on a
  lone surrogate only; a \<open>str\<close> of this model, with code points below 256, holds none.
  The model of a handler ends where the handler returns or raises: how the framework
  turns a raised \<open>HTTPException\<close> into a reply is not part of it.
\<close>

fun nonfinite :: "json \<Rightarrow> bool" where
  "nonfinite (JFloat r) = (r = ''nan'' \<or> r = ''inf'' \<or> r = ''-inf'')"
| "nonfinite (JArray vs) = (\<exists>v\<in>set vs. nonfinite v)"
| "nonfinite (JObject items) = (\<exists>v\<in>set (map snd items). nonfinite v)"
| "nonfinite JNull = False"
| "nonfinite (JBool b) = False"
| "nonfinite (JInt i) = False"
| "nonfinite (JString s) = False"

definition json_response :: "nat \<Rightarrow> json \<Rightarrow> exn + JSONResponse" where
  "json_response status content =
     (if nonfinite content then Inl ''Out of range float values are not JSON compliant''
      else Inr (JSONResponse status content))"

definition detail_500 :: "json \<Rightarrow> json" where
  "detail_500 message = (if message = JNull then JString ''Internal Server Error'' else message)"

text \<open>
  \<open>upload_training_data\<close>. The test after the extraction reads
  \<open>not extracted_text and extracted_text != ""\<close> and guards a warning only. An
  \<open>HTTPException\<close> of the extraction or of the JSON parser is re-raised; an exception of
  the store, or of the reply built in the same \<open>try\<close>, becomes a 500 that does not show
  its message.
\<close>

definition upload_message :: "UploadFile \<Rightarrow> UploadFile \<Rightarrow> json" where
  "upload_message doc_file json_file =
     JObject [(''message'', JString (''Training data from '' @ [CHR 0x27]
        @ fmt (filename doc_file) @ [CHR 0x27] @ '' and '' @ [CHR 0x27]
        @ fmt (filename json_file) @ [CHR 0x27]
        @ '' uploaded and stored successfully.''))]"

definition upload_training_data ::
  "env \<Rightarrow> Session \<Rightarrow> UploadFile \<Rightarrow> UploadFile
     \<Rightarrow> (HTTPException + JSONResponse) \<times> Session \<times> event list" where
  "upload_training_data env db doc_file json_file =
     (case extract_text_from_upload env doc_file of
        (Inl e, ev1) \<Rightarrow> (Inl e, db, ev1)
      | (Inr extracted_text, ev1) \<Rightarrow>
          (case parse_json_upload env json_file of
             (Inl e, ev2) \<Rightarrow> (Inl e, db, ev1 @ ev2)
           | (Inr json_value, ev2) \<Rightarrow>
               (case create_training_pair db extracted_text json_value (filename doc_file) of
                  (Inl e, db') \<Rightarrow>
                    (Inl (HTTPException 500
                            (JString ''Failed to store training data in database.'')),
                     db', ev1 @ ev2)
                | (Inr db_pair, db') \<Rightarrow>
                    (case json_response 201 (upload_message doc_file json_file) of
                       Inl e \<Rightarrow>
                         (Inl (HTTPException 500
                                 (JString ''Failed to store training data in database.'')),
                          db', ev1 @ ev2)
                     | Inr reply \<Rightarrow> (Inr reply, db', ev1 @ ev2)))))"

text \<open>
  \<open>process_query\<close>. The test after the extraction is the same expression as in the upload
  handler, here guarding the \<open>raise\<close> of the 400. The store is asked for five examples;
  the generated value is a failure when it is a \<open>dict\<close> with the key \<open>error\<close>, and the
  value under that key becomes the detail of the 500. Otherwise the value is the content
  of the reply; a reply that cannot be built is caught by the \<open>except Exception\<close> of the
  same \<open>try\<close>.
\<close>

definition process_query ::
  "env \<Rightarrow> Session \<Rightarrow> UploadFile \<Rightarrow> (HTTPException + JSONResponse) \<times> event list" where
  "process_query env db doc_file =
     (case extract_text_from_upload env doc_file of
        (Inl e, ev1) \<Rightarrow> (Inl e, ev1)
      | (Inr input_text, ev1) \<Rightarrow>
          if input_text = [] \<and> input_text \<noteq> [] then
            (Inl (HTTPException 400 (JString (''Could not extract text from query document: ''
                    @ fmt (filename doc_file)))),
             ev1)
          else
            (let examples = get_training_examples db 5;
                 (generated_json_result, ev2) =
                   generate_json_with_gemini env input_text examples ''gemini-1.5-flash''
             in case getitem generated_json_result ''error'' of
                  Some message \<Rightarrow> (Inl (HTTPException 500 (detail_500 message)), ev1 @ ev2)
                | None \<Rightarrow>
                    (case json_response 200 generated_json_result of
                       Inl e \<Rightarrow>
                         (Inl (HTTPException 500 (JString
                            (''An unexpected server error occurred during JSON generation: ''
                               @ e))),
                          ev1 @ ev2)
                     | Inr reply \<Rightarrow> (Inr reply, ev1 @ ev2))))"

section \<open>The JSON encoder, and the environment of a concrete run\<close>

text \<open>
  The theorems below hold for every environment. To run the program on a concrete
  request, an environment says what each library does on the inputs of that run.
  \<open>json.dumps(value, indent=2)\<close> is the encoder of this section, which follows the
  library's: \<open>ensure_ascii\<close> escapes, a comma and a line break between items, a colon
  and a space after a key, two spaces for each level.
\<close>

text \<open>The encoder: \<open>json.dumps(value, indent=2)\<close>, with \<open>ensure_ascii\<close>.\<close>

definition hex_digit :: "nat \<Rightarrow> char" where
  "hex_digit n = (if n < 10 then char_of (48 + n) else char_of (87 + n))"

definition escape_char :: "char \<Rightarrow> string" where
  "escape_char c =
     (let n = (of_char c :: nat)
      in if c = CHR 0x22 then [CHR 0x5C, CHR 0x22]
         else if c = CHR 0x5C then [CHR 0x5C, CHR 0x5C]
         else if c = CHR 0x08 then [CHR 0x5C, CHR ''b'']
         else if c = CHR 0x0C then [CHR 0x5C, CHR ''f'']
         else if c = CHR 0x0A then [CHR 0x5C, CHR ''n'']
         else if c = CHR 0x0D then [CHR 0x5C, CHR ''r'']
         else if c = CHR 0x09 then [CHR 0x5C, CHR ''t'']
         else if 32 \<le> n \<and> n \<le> 126 then [c]
         else [CHR 0x5C, CHR ''u'', CHR ''0'', CHR ''0'', hex_digit (n div 16), hex_digit (n mod 16)])"

definition encode_string :: "string \<Rightarrow> string" where
  "encode_string s = [CHR 0x22] @ concat (map escape_char s) @ [CHR 0x22]"

definition str_int :: "int \<Rightarrow> string" where
  "str_int i = (if i < 0 then ''-'' @ str_nat (nat (- i)) else str_nat (nat i))"

definition encode_float :: "string \<Rightarrow> string" where
  "encode_float r =
     (if r = ''nan'' then ''NaN''
      else if r = ''inf'' then ''Infinity''
      else if r = ''-inf'' then ''-Infinity''
      else r)"

text \<open>\<open>dumps_at level value\<close> is the text of a value that stands at nesting \<open>level\<close>.\<close>

fun dumps_at :: "nat \<Rightarrow> json \<Rightarrow> string" where
  "dumps_at level JNull = ''null''"
| "dumps_at level (JBool b) = (if b then ''true'' else ''false'')"
| "dumps_at level (JInt i) = str_int i"
| "dumps_at level (JFloat r) = encode_float r"
| "dumps_at level (JString s) = encode_string s"
| "dumps_at level (JArray vs) =
     (if vs = [] then ''[]''
      else ''['' @ ''\<newline>'' @ replicate (2 * (level + 1)) CHR '' ''
        @ join ('','' @ ''\<newline>'' @ replicate (2 * (level + 1)) CHR '' '')
            (map (dumps_at (level + 1)) vs)
        @ ''\<newline>'' @ replicate (2 * level) CHR '' '' @ '']'')"
| "dumps_at level (JObject items) =
     (if items = [] then ''{}''
      else ''{'' @ ''\<newline>'' @ replicate (2 * (level + 1)) CHR '' ''
        @ join ('','' @ ''\<newline>'' @ replicate (2 * (level + 1)) CHR '' '')
            (map (\<lambda>item. encode_string (fst item) @ '': '' @ dumps_at (level + 1) (snd item))
               items)
        @ ''\<newline>'' @ replicate (2 * level) CHR '' '' @ ''}'')"

definition dumps :: "json \<Rightarrow> string" where
  "dumps v = dumps_at 0 v"
text \<open>
  \<open>json.loads\<close> in a run is given by the calls that the run makes: the texts handed to
  it, each with the library's answer. A text outside the table is not a call of the
  run.
\<close>

definition answers :: "(string \<times> loads_result) list \<Rightarrow> string \<Rightarrow> loads_result" where
  "answers calls s =
     (case map_of calls s of
        Some result \<Rightarrow> result
      | None \<Rightarrow> Raises ''not a call of this run'')"

text \<open>
  The environment of a run: the key, and what the PDF library, the DOCX library and the
  generation service do on the inputs of the run. \<open>json_calls\<close> adds the calls of
  \<open>json.loads\<close> that the run makes, those on a \<open>str\<close> and those on \<open>bytes\<close>.
\<close>

definition run_env ::
  "string option \<Rightarrow> (exn + (exn + string) list) \<Rightarrow> (exn + string list)
     \<Rightarrow> (exn + GenerateContentResponse) \<Rightarrow> env" where
  "run_env key pdf docx answer =
     \<lparr>GEMINI_API_KEY = key,
      PdfReader = (\<lambda>file_stream. pdf),
      Document = (\<lambda>file_stream. docx),
      json_loads = answers [],
      json_loads_bytes = answers [],
      json_dumps = dumps,
      generate_content_async = (\<lambda>model_name prompt. answer)\<rparr>"

definition json_calls ::
  "env \<Rightarrow> (string \<times> loads_result) list \<Rightarrow> (string \<times> loads_result) list \<Rightarrow> env" where
  "json_calls env texts bodies =
     env\<lparr>json_loads := answers texts, json_loads_bytes := answers bodies\<rparr>"

text \<open>A response with one candidate that holds the given text.\<close>

definition completion :: "string \<Rightarrow> exn + GenerateContentResponse" where
  "completion text =
     Inr \<lparr>candidates = 1, prompt_feedback = None, response_text = Inr text\<rparr>"

text \<open>Requests and stores for concrete runs.\<close>

definition png_upload :: UploadFile where
  "png_upload =
     \<lparr>filename = Some ''scan.png'', content_type = Some ''image/png'', read = Inr ''PNG''\<rparr>"

definition pdf_upload :: UploadFile where
  "pdf_upload =
     \<lparr>filename = Some ''report.pdf'', content_type = Some ''application/pdf'',
      read = Inr ''%PDF-1.4''\<rparr>"

definition json_upload :: "string option \<Rightarrow> string \<Rightarrow> UploadFile" where
  "json_upload declared body =
     \<lparr>filename = Some ''report.json'', content_type = declared, read = Inr body\<rparr>"

definition empty_store :: Session where
  "empty_store =
     \<lparr>rows = [], commit_error = None, refresh_error = None, query_error = None\<rparr>"

definition annotated :: "nat \<Rightarrow> string \<Rightarrow> TrainingPair" where
  "annotated n text =
     \<lparr>pair_id = n, text_content = text, json_data = JObject [(''k'', JString text)],
      original_filename = None\<rparr>"

definition three_rows :: Session where
  "three_rows =
     \<lparr>rows = [annotated 1 ''first'', annotated 2 ''second'', annotated 3 ''third''],
      commit_error = None, refresh_error = None, query_error = None\<rparr>"

section \<open>Notions for the statements about the prompt\<close>

text \<open>
  The label of the \<open>k\<close>-th example, the five entries that make its block, and the three
  entries that close every prompt.
\<close>

definition example_label :: "nat \<Rightarrow> string" where
  "example_label k = ''\<newline>Example '' @ str_nat k @ '':''"

definition example_block :: "env \<Rightarrow> nat \<Rightarrow> TrainingPair \<Rightarrow> string list" where
  "example_block env k example =
     [example_label k,
      ''Input Text:'',
      ''```\<newline>'' @ text_content example @ ''\<newline>```'',
      ''Output JSON:'',
      ''```json\<newline>'' @ json_dumps env (json_data example) @ ''\<newline>```'']"

definition new_input_section :: "string \<Rightarrow> string list" where
  "new_input_section input_text =
     [''\<newline>--- New Input Text ---'',
      ''```\<newline>'' @ input_text @ ''\<newline>```'',
      ''\<newline>--- Generated JSON Output ---'']"

text \<open>
  The same three as texts of the prompt, following the words of the specification: the
  preamble, the block of the \<open>k\<close>-th example (a blank line, the label, the example's text
  in a fence, the indented JSON of its annotation in a \<open>json\<close> fence), and the closing
  section with the new input in a fence.
\<close>

definition preamble_text :: string where
  "preamble_text =
     ''You are an assistant that analyzes text documents and generates structured JSON output based on the content.''
     @ ''\<newline>Follow the format of the examples provided.''
     @ ''\<newline>Given the following text input, generate the corresponding JSON object.''
     @ ''\<newline>Output ONLY the JSON object itself, without any introductory text, explanation, or markdown formatting like ```json.''
     @ ''\<newline>\<newline>--- Examples ---''"

definition block_text :: "env \<Rightarrow> nat \<Rightarrow> TrainingPair \<Rightarrow> string" where
  "block_text env k example =
     ''\<newline>Example '' @ str_nat k @ '':''
     @ ''\<newline>Input Text:''
     @ ''\<newline>```\<newline>'' @ text_content example @ ''\<newline>```''
     @ ''\<newline>Output JSON:''
     @ ''\<newline>```json\<newline>'' @ json_dumps env (json_data example) @ ''\<newline>```''"

definition new_input_text :: "string \<Rightarrow> string" where
  "new_input_text input_text =
     ''\<newline>--- New Input Text ---''
     @ ''\<newline>```\<newline>'' @ input_text @ ''\<newline>```''
     @ ''\<newline>\<newline>--- Generated JSON Output ---''"

section \<open>Text extraction\<close>

lemma isspace_newline: "isspace CHR ''\<newline>''"
  by (simp add: isspace_def)

lemma strip_snoc_space: "isspace c \<Longrightarrow> strip (s @ [c]) = strip s"
proof (cases "\<forall>x\<in>set s. isspace x")
  case True
  assume c: "isspace c"
  from True have a: "dropWhile isspace s = []"
    by simp
  from True c have b: "dropWhile isspace (s @ [c]) = []"
    by simp
  show ?thesis
    unfolding strip_def a b ..
next
  case False
  assume c: "isspace c"
  from False obtain x where x: "x \<in> set s" "\<not> isspace x"
    by auto
  then have "dropWhile isspace (s @ [c]) = dropWhile isspace s @ [c]"
    by (simp add: dropWhile_append1)
  with c show ?thesis
    unfolding strip_def by simp
qed

text \<open>What \<open>strip\<close> returns neither starts nor ends with white space.\<close>

lemma strip_no_outer_space:
  "strip s = [] \<or> (\<not> isspace (hd (strip s)) \<and> \<not> isspace (last (strip s)))"
proof (cases "strip s = []")
  case True
  then show ?thesis by simp
next
  case False
  let ?d = "dropWhile isspace s"
  let ?r = "dropWhile isspace (rev ?d)"
  from False have r: "?r \<noteq> []"
    unfolding strip_def by simp
  have d: "?d \<noteq> []"
  proof
    assume "?d = []"
    then have "?r = []"
      by (simp only: rev.simps dropWhile.simps)
    with r show False ..
  qed
  from d have h: "\<not> isspace (hd ?d)"
    using hd_dropWhile by blast
  from r have l: "\<not> isspace (hd ?r)"
    using hd_dropWhile by blast
  have "last (strip s) = hd ?r"
    using r unfolding strip_def by (simp add: last_rev)
  moreover have "hd (strip s) = hd ?d"
  proof -
    have "rev ?d = takeWhile isspace (rev ?d) @ ?r"
      by simp
    then have "?d = rev ?r @ rev (takeWhile isspace (rev ?d))"
      by (metis rev_append rev_rev_ident)
    then have "hd ?d = hd (rev ?r)"
      using r by (metis hd_append2 rev_is_Nil_conv)
    then show ?thesis
      unfolding strip_def by simp
  qed
  ultimately show ?thesis using h l by simp
qed

text \<open>The page loop on pages that all give a text, and on pages of which one raises.\<close>

lemma pdf_pages_texts:
  "pdf_pages (map Inr ts) acc
     = Inr (acc @ concat (map (\<lambda>t. t @ ''\<newline>'') (filter (\<lambda>t. t \<noteq> []) ts)))"
  by (induction ts arbitrary: acc) simp_all

lemma pdf_pages_raises:
  "Inl e \<in> set pages \<Longrightarrow> \<exists>e'. pdf_pages pages acc = Inl e'"
proof (induction pages arbitrary: acc)
  case Nil
  then show ?case by simp
next
  case (Cons p pages)
  then show ?case by (cases p) auto
qed

lemma concat_lines_join:
  "xs \<noteq> [] \<Longrightarrow> concat (map (\<lambda>t. t @ sep) xs) = join sep xs @ sep"
proof (induction xs rule: join.induct[of _ sep])
  case 1
  then show ?case by simp
next
  case (2 p)
  then show ?case by simp
next
  case (3 p q ps)
  then show ?case by simp
qed

lemma strip_lines:
  "strip (concat (map (\<lambda>t. t @ ''\<newline>'') xs)) = strip (join ''\<newline>'' xs)"
proof (cases xs)
  case Nil
  then show ?thesis by simp
next
  case (Cons x xs')
  then have "concat (map (\<lambda>t. t @ ''\<newline>'') xs) = (join ''\<newline>'' xs) @ [CHR ''\<newline>'']"
    using concat_lines_join[of xs "''\<newline>''"] by simp
  then show ?thesis
    using strip_snoc_space[OF isspace_newline] by simp
qed

text \<open>
  Claim C5. On a PDF byte stream the extraction returns the empty string when the reader
  raises and when the text extraction of a page raises. When every page gives a text,
  the result is the texts of the pages that gave a non-empty text, in page order and
  joined by a newline, with the white space at both ends removed. In every case the
  result neither starts nor ends with white space.
\<close>

theorem extract_text_from_pdf_joins_pages:
  "(PdfReader env file_stream = Inl e \<longrightarrow> extract_text_from_pdf env file_stream = [])
   \<and> (PdfReader env file_stream = Inr pages \<and> Inl e \<in> set pages \<longrightarrow>
        extract_text_from_pdf env file_stream = [])
   \<and> (PdfReader env file_stream = Inr (map Inr texts) \<longrightarrow>
        extract_text_from_pdf env file_stream
          = strip (join ''\<newline>'' (filter (\<lambda>t. t \<noteq> []) texts)))
   \<and> (extract_text_from_pdf env file_stream = []
        \<or> (\<not> isspace (hd (extract_text_from_pdf env file_stream))
            \<and> \<not> isspace (last (extract_text_from_pdf env file_stream))))"
proof (intro conjI impI)
  assume "PdfReader env file_stream = Inl e"
  then show "extract_text_from_pdf env file_stream = []"
    by (simp add: extract_text_from_pdf_def)
next
  assume a: "PdfReader env file_stream = Inr pages \<and> Inl e \<in> set pages"
  then obtain e' where "pdf_pages pages [] = Inl e'"
    using pdf_pages_raises by blast
  with a show "extract_text_from_pdf env file_stream = []"
    by (simp add: extract_text_from_pdf_def)
next
  assume "PdfReader env file_stream = Inr (map Inr texts)"
  then show "extract_text_from_pdf env file_stream
      = strip (join ''\<newline>'' (filter (\<lambda>t. t \<noteq> []) texts))"
    by (simp add: extract_text_from_pdf_def pdf_pages_texts strip_lines)
next
  show "extract_text_from_pdf env file_stream = []
      \<or> (\<not> isspace (hd (extract_text_from_pdf env file_stream))
          \<and> \<not> isspace (last (extract_text_from_pdf env file_stream)))"
    using strip_no_outer_space
    by (auto simp: extract_text_from_pdf_def split: sum.splits)
qed

theorem extract_text_from_pdf_joins_pages_witness:
  "PdfReader (run_env None (Inl ''EOF marker not found'') (Inl []) (Inl [])) ''junk''
     = Inl ''EOF marker not found''
   \<and> extract_text_from_pdf (run_env None (Inl ''EOF marker not found'') (Inl []) (Inl []))
        ''junk'' = []
   \<and> PdfReader
        (run_env None (Inr [Inr ''Page one'', Inl ''broken stream'']) (Inl []) (Inl []))
        ''%PDF-1.4'' = Inr [Inr ''Page one'', Inl ''broken stream'']
   \<and> Inl ''broken stream'' \<in> set [Inr ''Page one'', Inl ''broken stream'']
   \<and> extract_text_from_pdf
        (run_env None (Inr [Inr ''Page one'', Inl ''broken stream'']) (Inl []) (Inl []))
        ''%PDF-1.4'' = []
   \<and> PdfReader
        (run_env None (Inr (map Inr ['' Page one'', [], ''Page two '', ''\<newline>''])) (Inl [])
           (Inl []))
        ''%PDF-1.4'' = Inr (map Inr ['' Page one'', [], ''Page two '', ''\<newline>''])
   \<and> extract_text_from_pdf
        (run_env None (Inr (map Inr ['' Page one'', [], ''Page two '', ''\<newline>''])) (Inl [])
           (Inl []))
        ''%PDF-1.4'' = ''Page one\<newline>Page two''"
proof -
  let ?bad = "run_env None (Inl ''EOF marker not found'') (Inl []) (Inl [])"
  let ?half = "run_env None (Inr [Inr ''Page one'', Inl ''broken stream'']) (Inl []) (Inl [])"
  let ?texts = "['' Page one'', [], ''Page two '', ''\<newline>'']"
  let ?good = "run_env None (Inr (map Inr ?texts)) (Inl []) (Inl [])"
  have bad: "PdfReader ?bad ''junk'' = Inl ''EOF marker not found''"
    by (simp add: run_env_def)
  have half: "PdfReader ?half ''%PDF-1.4'' = Inr [Inr ''Page one'', Inl ''broken stream'']"
    by (simp add: run_env_def)
  have good: "PdfReader ?good ''%PDF-1.4'' = Inr (map Inr ?texts)"
    by (simp add: run_env_def)
  have trimmed: "strip (join ''\<newline>'' (filter (\<lambda>t. t \<noteq> []) ?texts)) = ''Page one\<newline>Page two''"
    by (simp add: strip_def isspace_def)
  from bad half good trimmed
    extract_text_from_pdf_joins_pages
      [of ?bad "''junk''" "''EOF marker not found''" "[]" "[]"]
    extract_text_from_pdf_joins_pages
      [of ?half "''%PDF-1.4''" "''broken stream''" "[Inr ''Page one'', Inl ''broken stream'']" "[]"]
    extract_text_from_pdf_joins_pages
      [of ?good "''%PDF-1.4''" "[]" "[]" ?texts]
  show ?thesis
    by simp
qed

text \<open>
  Claim C9. A file whose declared type is neither the PDF type nor the DOCX type is
  answered with the client error 400 naming the unsupported type, and the function has
  no effect: it reads nothing, whatever reading the file would give.
\<close>

theorem extract_text_from_upload_unsupported_type:
  assumes "content_type file \<noteq> Some ''application/pdf''"
    and "content_type file \<noteq>
      Some ''application/vnd.openxmlformats-officedocument.wordprocessingml.document''"
  shows "extract_text_from_upload env (file\<lparr>read := body\<rparr>)
      = (Inl (HTTPException 400 (JString (''Unsupported file type: ''
           @ fmt (content_type file) @ ''. Please upload PDF or DOCX.''))), [])
    \<and> extract_text_from_upload env file = extract_text_from_upload env (file\<lparr>read := body\<rparr>)
    \<and> Read (filename file) \<notin> set (snd (extract_text_from_upload env file))"
  using assms by (auto simp: extract_text_from_upload_def SUPPORTED_DOC_TYPES_def)

theorem extract_text_from_upload_unsupported_type_witness:
  "content_type png_upload \<noteq> Some ''application/pdf''
   \<and> content_type png_upload \<noteq>
      Some ''application/vnd.openxmlformats-officedocument.wordprocessingml.document''
   \<and> extract_text_from_upload (run_env None (Inl []) (Inl []) (Inl [])) png_upload
      = (Inl (HTTPException 400
           (JString ''Unsupported file type: image/png. Please upload PDF or DOCX.'')), [])"
proof -
  have a: "content_type png_upload \<noteq> Some ''application/pdf''"
    by (simp add: png_upload_def)
  have b: "content_type png_upload \<noteq>
      Some ''application/vnd.openxmlformats-officedocument.wordprocessingml.document''"
    by (simp add: png_upload_def)
  from extract_text_from_upload_unsupported_type
    [OF a b, of "run_env None (Inl []) (Inl []) (Inl [])" "read png_upload"] a b
  show ?thesis
    by (simp add: png_upload_def)
qed

text \<open>
  A supported upload that can be read is answered with the text of its extractor; the
  stream is read once and closed.
\<close>

lemma extract_text_from_upload_pdf:
  "content_type file = Some ''application/pdf'' \<Longrightarrow> read file = Inr content \<Longrightarrow>
     extract_text_from_upload env file
       = (Inr (extract_text_from_pdf env content), [Read (filename file), Close])"
  by (simp add: extract_text_from_upload_def SUPPORTED_DOC_TYPES_def)

section \<open>The JSON upload\<close>




section \<open>The store\<close>

lemma recent_sorted:
  "sorted_wrt (\<lambda>a b. pair_id b \<le> pair_id a) (rev (sort_key pair_id rs))"
proof -
  have "sorted (map pair_id (sort_key pair_id rs))"
    by simp
  then have "sorted_wrt (\<lambda>a b. pair_id a \<le> pair_id b) (sort_key pair_id rs)"
    by (simp add: sorted_wrt_map)
  then show ?thesis
    by (simp add: sorted_wrt_rev)
qed

lemma take_dominates:
  assumes "sorted_wrt R xs" and "r \<in> set (take n xs)" and "x \<in> set xs"
    and "x \<notin> set (take n xs)"
  shows "R r x"
proof -
  have "xs = take n xs @ drop n xs"
    by simp
  with assms(1) have "\<forall>a\<in>set (take n xs). \<forall>b\<in>set (drop n xs). R a b"
    by (metis sorted_wrt_append)
  moreover from assms(3,4) have "x \<in> set (drop n xs)"
    by (metis Un_iff append_take_drop_id set_append)
  ultimately show ?thesis
    using assms(2) by blast
qed

lemma increasing_rows_sorted:
  "sorted_wrt (<) (map pair_id rs) \<Longrightarrow> sort_key pair_id rs = rs"
proof -
  assume "sorted_wrt (<) (map pair_id rs)"
  then have "sorted (map pair_id rs)"
    by (rule sorted_wrt_mono_rel[rotated]) simp
  then show ?thesis
    by (rule sort_key_id_if_sorted)
qed

text \<open>A new key is above every key of the table, so keys grow in the order of creation.\<close>

lemma fold_max_init: "(b::nat) \<le> fold max zs b"
proof (induction zs arbitrary: b)
  case Nil
  show ?case by simp
next
  case (Cons z zs)
  have "b \<le> max z b" by simp
  also have "\<dots> \<le> fold max zs (max z b)" by (rule Cons.IH)
  finally show ?case by simp
qed

lemma fold_max_ge: "x \<in> set xs \<Longrightarrow> x \<le> fold max xs (a::nat)"
proof (induction xs arbitrary: a)
  case Nil
  then show ?case by simp
next
  case (Cons y ys)
  show ?case
  proof (cases "x = y")
    case True
    have "y \<le> max y a" by simp
    also have "\<dots> \<le> fold max ys (max y a)" by (rule fold_max_init)
    finally show ?thesis using True by simp
  next
    case False
    with Cons show ?thesis by simp
  qed
qed

lemma next_id_above: "r \<in> set rs \<Longrightarrow> pair_id r < next_id rs"
  unfolding next_id_def using fold_max_ge[of "pair_id r" "map pair_id rs" 0] by simp

lemma create_keeps_increasing:
  assumes "sorted_wrt (<) (map pair_id (rows db))"
    and "create_training_pair db text v original = (res, db')"
  shows "sorted_wrt (<) (map pair_id (rows db'))"
  using assms next_id_above[of _ "rows db"]
  by (auto simp: create_training_pair_def Let_def sorted_wrt_append split: option.splits)

text \<open>
  Claim C4, as stated, fails on the code. The limit is an \<open>int\<close> that goes to the
  database as it is, and SQLite reads a negative limit as no limit: asked for \<open>-1\<close>
  examples of a table of three rows, \<open>get_training_examples\<close> returns all three.
\<close>

theorem get_training_examples_negative_limit:
  "get_training_examples three_rows (- 1)
     = [annotated 3 ''third'', annotated 2 ''second'', annotated 1 ''first'']
   \<and> \<not> int (length (get_training_examples three_rows (- 1))) \<le> - 1"
  by (simp add: get_training_examples_def query_recent_def three_rows_def annotated_def)

text \<open>
  Claim C4, amended. For every limit \<open>n\<close> that is not negative and every session,
  \<open>get_training_examples\<close> returns at most \<open>n\<close> rows. For every limit, it returns a list
  (it has no error result) of rows of the table in descending order of their keys, no
  row that it leaves out has a larger key than a row that it returns, and the list is
  empty when the table is empty and when the query raises. Where the keys grow in the
  order of creation, as they do in a table filled by \<open>create_training_pair\<close>, the list for
  a limit \<open>n\<close> that is not negative and fits in 64 bits is the last \<open>n\<close> rows created,
  the newest first; for a limit beyond 64 bits the query raises and the list is empty.
\<close>

theorem get_training_examples_recent:
  "(0 \<le> n \<longrightarrow> int (length (get_training_examples db n)) \<le> n)
   \<and> sorted_wrt (\<lambda>a b. pair_id b \<le> pair_id a) (get_training_examples db n)
   \<and> set (get_training_examples db n) \<subseteq> set (rows db)
   \<and> (\<forall>r\<in>set (get_training_examples db n). \<forall>x\<in>set (rows db).
        x \<notin> set (get_training_examples db n) \<longrightarrow> pair_id x \<le> pair_id r)
   \<and> (rows db = [] \<or> query_error db \<noteq> None \<longrightarrow> get_training_examples db n = [])
   \<and> (0 \<le> n \<and> n \<le> 9223372036854775807 \<and> query_error db = None
        \<and> sorted_wrt (<) (map pair_id (rows db)) \<longrightarrow>
        get_training_examples db n = take (nat n) (rev (rows db)))
   \<and> (n < - 9223372036854775808 \<or> 9223372036854775807 < n \<longrightarrow>
        get_training_examples db n = [])"
proof (cases "query_error db = None
    \<and> \<not> (n < - 9223372036854775808 \<or> 9223372036854775807 < n)")
  case False
  then have "get_training_examples db n = []"
    by (auto simp: get_training_examples_def query_recent_def split: option.splits)
  with False show ?thesis
    by auto
next
  case True
  then have None: "query_error db = None"
    and range: "\<not> (n < - 9223372036854775808 \<or> 9223372036854775807 < n)"
    by simp_all
  let ?all = "rev (sort_key pair_id (rows db))"
  let ?got = "if n < 0 then ?all else take (nat n) ?all"
  from None range have res: "get_training_examples db n = ?got"
    by (simp add: get_training_examples_def query_recent_def)
  have srt: "sorted_wrt (\<lambda>a b. pair_id b \<le> pair_id a) ?all"
    by (rule recent_sorted)
  have "0 \<le> n \<longrightarrow> int (length ?got) \<le> n"
    by (auto simp: min_def)
  moreover have "sorted_wrt (\<lambda>a b. pair_id b \<le> pair_id a) ?got"
    using srt sorted_wrt_take[OF srt, of "nat n"] by simp
  moreover have "set ?got \<subseteq> set (rows db)"
    using set_take_subset[of "nat n" ?all] by simp
  moreover have "\<forall>r\<in>set ?got. \<forall>x\<in>set (rows db). x \<notin> set ?got \<longrightarrow> pair_id x \<le> pair_id r"
  proof (intro ballI impI)
    fix r x
    assume a: "r \<in> set ?got" "x \<in> set (rows db)" "x \<notin> set ?got"
    show "pair_id x \<le> pair_id r"
    proof (cases "n < 0")
      case True
      with a show ?thesis by simp
    next
      case False
      with a show ?thesis
        using take_dominates[OF srt, of r "nat n" x] by simp
    qed
  qed
  moreover have "rows db = [] \<or> query_error db \<noteq> None \<longrightarrow> ?got = []"
    using None by auto
  moreover have "0 \<le> n \<and> n \<le> 9223372036854775807 \<and> query_error db = None
      \<and> sorted_wrt (<) (map pair_id (rows db)) \<longrightarrow>
      ?got = take (nat n) (rev (rows db))"
    using increasing_rows_sorted[of "rows db"] by simp
  moreover have "n < - 9223372036854775808 \<or> 9223372036854775807 < n \<longrightarrow> ?got = []"
    using range by blast
  ultimately show ?thesis
    unfolding res by blast
qed

theorem get_training_examples_recent_witness:
  "(0::int) \<le> 2
   \<and> (2::int) \<le> 9223372036854775807
   \<and> query_error three_rows = None
   \<and> sorted_wrt (<) (map pair_id (rows three_rows))
   \<and> get_training_examples three_rows 2 = [annotated 3 ''third'', annotated 2 ''second'']
   \<and> int (length (get_training_examples three_rows 2)) \<le> 2
   \<and> rows empty_store = []
   \<and> get_training_examples empty_store 2 = []
   \<and> query_error (three_rows\<lparr>query_error := Some ''database is locked''\<rparr>) \<noteq> None
   \<and> get_training_examples (three_rows\<lparr>query_error := Some ''database is locked''\<rparr>) 2 = []
   \<and> (9223372036854775807::int) < 9223372036854775808
   \<and> get_training_examples three_rows 9223372036854775808 = []"
proof -
  let ?locked = "three_rows\<lparr>query_error := Some ''database is locked''\<rparr>"
  have limit: "(0::int) \<le> 2"
    by simp
  have fits: "(2::int) \<le> 9223372036854775807"
    by simp
  have beyond: "(9223372036854775807::int) < 9223372036854775808"
    by simp
  have ok: "query_error three_rows = None"
    by (simp add: three_rows_def)
  have inc: "sorted_wrt (<) (map pair_id (rows three_rows))"
    by (simp add: three_rows_def annotated_def)
  have none: "rows empty_store = []"
    by (simp add: empty_store_def)
  have locked: "query_error ?locked \<noteq> None"
    by simp
  from limit fits ok inc get_training_examples_recent[of 2 three_rows]
  have "get_training_examples three_rows 2 = take (nat 2) (rev (rows three_rows))"
    by blast
  then have a: "get_training_examples three_rows 2
      = [annotated 3 ''third'', annotated 2 ''second'']"
    by (simp add: three_rows_def)
  from limit get_training_examples_recent[of 2 three_rows]
  have bound: "int (length (get_training_examples three_rows 2)) \<le> 2"
    by blast
  from none get_training_examples_recent[of 2 empty_store]
  have b: "get_training_examples empty_store 2 = []"
    by blast
  from locked get_training_examples_recent[of 2 ?locked]
  have c: "get_training_examples ?locked 2 = []"
    by blast
  from beyond get_training_examples_recent[of 9223372036854775808 three_rows]
  have d: "get_training_examples three_rows 9223372036854775808 = []"
    by blast
  from limit fits ok inc a bound none b locked c beyond d show ?thesis
    by (intro conjI)
qed

section \<open>The prompt\<close>

lemma upt_shift: "[0..<Suc n] = 0 # map Suc [0..<n]"
  by (simp add: upt_conv_Cons map_Suc_upt del: upt_Suc)

text \<open>The loop appends one block for each example, numbered from the index it starts at.\<close>

lemma append_examples_blocks:
  "append_examples env i examples acc
     = acc @ concat (map (\<lambda>j. example_block env (i + j + 1) (examples ! j))
         [0..<length examples])"
proof (induction examples arbitrary: i acc)
  case Nil
  show ?case by simp
next
  case (Cons example examples)
  have "append_examples env i (example # examples) acc
      = append_examples env (i + 1) examples (acc @ example_block env (i + 1) example)"
    by (simp add: example_block_def example_label_def)
  also have "\<dots> = (acc @ example_block env (i + 1) example)
      @ concat (map (\<lambda>j. example_block env (i + 1 + j + 1) (examples ! j))
          [0..<length examples])"
    by (rule Cons.IH)
  also have "\<dots> = acc @ concat (map
      (\<lambda>j. example_block env (i + j + 1) ((example # examples) ! j))
      [0..<length (example # examples)])"
    by (simp add: upt_shift comp_def del: upt_Suc)
  finally show ?case .
qed

text \<open>Of the entries of a prompt, only the labels of the blocks start with \<open>Example\<close>.\<close>

lemma label_only:
  "filter (\<lambda>p. startswith p ''\<newline>Example '') (example_block env k example)
     = [example_label k]"
  by (simp add: example_block_def example_label_def startswith_def)

lemma filter_blocks:
  "filter (\<lambda>p. startswith p ''\<newline>Example '')
     (concat (map (\<lambda>j. example_block env (f j) (g j)) js)) = map (\<lambda>j. example_label (f j)) js"
  by (induction js) (simp_all add: label_only)

lemma filter_preamble:
  "filter (\<lambda>p. startswith p ''\<newline>Example '') prompt_preamble = []"
  by (simp add: prompt_preamble_def startswith_def)

lemma filter_new_input:
  "filter (\<lambda>p. startswith p ''\<newline>Example '') (new_input_section input_text) = []"
  by (simp add: new_input_section_def startswith_def)

lemma filter_no_examples:
  "\<not> startswith no_examples_sentence ''\<newline>Example ''"
  by (simp add: no_examples_sentence_def startswith_def)

text \<open>
  Joining entries puts the separator before every entry but the first, so the prompt
  is the first entry followed by every other entry on a new line.
\<close>

lemma join_first_rest:
  "join sep (p # ps) = p @ concat (map (\<lambda>q. sep @ q) ps)"
  by (induction ps arbitrary: p) simp_all

lemma lines_of_block:
  "concat (map (\<lambda>q. ''\<newline>'' @ q) (example_block env k example))
     = ''\<newline>'' @ block_text env k example"
  by (simp add: example_block_def example_label_def block_text_def)

lemma lines_of_blocks:
  "concat (map (\<lambda>q. ''\<newline>'' @ q) (concat (map (\<lambda>j. example_block env (f j) (g j)) js)))
     = concat (map (\<lambda>j. ''\<newline>'' @ block_text env (f j) (g j)) js)"
proof (induction js)
  case Nil
  show ?case by simp
next
  case (Cons j js)
  have "concat (map (\<lambda>q. ''\<newline>'' @ q)
        (concat (map (\<lambda>j. example_block env (f j) (g j)) (j # js))))
      = concat (map (\<lambda>q. ''\<newline>'' @ q) (example_block env (f j) (g j)))
        @ concat (map (\<lambda>q. ''\<newline>'' @ q)
            (concat (map (\<lambda>j. example_block env (f j) (g j)) js)))"
    by simp
  also have "\<dots> = (''\<newline>'' @ block_text env (f j) (g j))
      @ concat (map (\<lambda>j. ''\<newline>'' @ block_text env (f j) (g j)) js)"
    unfolding lines_of_block Cons.IH ..
  finally show ?case by simp
qed

lemma lines_of_new_input:
  "concat (map (\<lambda>q. ''\<newline>'' @ q) (new_input_section input_text))
     = ''\<newline>'' @ new_input_text input_text"
  by (simp add: new_input_section_def new_input_text_def)

lemma join_preamble:
  "join ''\<newline>'' (prompt_preamble @ entries)
     = preamble_text @ concat (map (\<lambda>q. ''\<newline>'' @ q) entries)"
  by (simp add: prompt_preamble_def preamble_text_def join_first_rest)

text \<open>
  Claim C6, as stated, fails on the code. The text of an example goes into the prompt
  as it is, so it can hold the text of a block. The prompt built from the one example
  below is the prompt built from two examples: it reads as the blocks \<open>Example 1\<close> and
  \<open>Example 2\<close>, not as exactly one block.
\<close>

theorem full_prompt_one_example_reads_as_two:
  "length
     [\<lparr>pair_id = 1,
        text_content = ''A\<newline>```\<newline>Output JSON:\<newline>```json\<newline>1\<newline>```\<newline>\<newline>Example 2:\<newline>Input Text:\<newline>```\<newline>B'',
        json_data = JInt 2, original_filename = None\<rparr>] = 1
   \<and> full_prompt (run_env None (Inl []) (Inl []) (Inl [])) ''Invoice 42''
       [\<lparr>pair_id = 1,
          text_content = ''A\<newline>```\<newline>Output JSON:\<newline>```json\<newline>1\<newline>```\<newline>\<newline>Example 2:\<newline>Input Text:\<newline>```\<newline>B'',
          json_data = JInt 2, original_filename = None\<rparr>]
     = full_prompt (run_env None (Inl []) (Inl []) (Inl [])) ''Invoice 42''
         [\<lparr>pair_id = 1, text_content = ''A'', json_data = JInt 1, original_filename = None\<rparr>,
          \<lparr>pair_id = 2, text_content = ''B'', json_data = JInt 2, original_filename = None\<rparr>]"
proof -
  have one: "str_nat (Suc 0) = ''1''"
    by code_simp
  have two: "str_nat (Suc (Suc 0)) = ''2''"
    by code_simp
  have first: "dumps (JInt 1) = ''1''"
    by code_simp
  have second: "dumps (JInt 2) = ''2''"
    by code_simp
  show ?thesis
    by (simp add: full_prompt_def prompt_parts_def run_env_def one two first second
        join_preamble)
qed

text \<open>
  Claim C6, amended. For every input text: with no examples the prompt is the preamble,
  the sentence that says that no examples are provided, and the section of the new
  input, and the builder emits no block. With \<open>k\<close> examples the builder emits exactly \<open>k\<close>
  blocks, in the order supplied, the \<open>i\<close>-th labelled \<open>Example i\<close> and holding the
  example's text as it is in a fence and the encoder's indented text of its annotation
  in a \<open>json\<close> fence, and the prompt is the preamble, these blocks and the section of the
  new input. Every entry of the prompt starts on a new line. The entries that the
  builder emits and that start with \<open>Example\<close> are exactly the labels 1 to \<open>k\<close> in order.
\<close>

theorem full_prompt_blocks:
  "full_prompt env input_text []
     = preamble_text @ ''\<newline>'' @ no_examples_sentence @ ''\<newline>'' @ new_input_text input_text
   \<and> (examples \<noteq> [] \<longrightarrow>
        full_prompt env input_text examples
          = preamble_text
            @ concat (map (\<lambda>i. ''\<newline>'' @ block_text env (i + 1) (examples ! i))
                [0..<length examples])
            @ ''\<newline>'' @ new_input_text input_text)
   \<and> prompt_parts env input_text []
        = prompt_preamble @ [no_examples_sentence] @ new_input_section input_text
   \<and> (examples \<noteq> [] \<longrightarrow>
        prompt_parts env input_text examples
          = prompt_preamble
            @ concat (map (\<lambda>i. example_block env (i + 1) (examples ! i))
                [0..<length examples])
            @ new_input_section input_text)
   \<and> filter (\<lambda>p. startswith p ''\<newline>Example '') (prompt_parts env input_text examples)
        = map (\<lambda>i. example_label (i + 1)) [0..<length examples]"
proof -
  have none: "prompt_parts env input_text []
      = prompt_preamble @ [no_examples_sentence] @ new_input_section input_text"
    by (simp add: prompt_parts_def new_input_section_def)
  have some: "prompt_parts env input_text examples
      = prompt_preamble
        @ concat (map (\<lambda>i. example_block env (i + 1) (examples ! i)) [0..<length examples])
        @ new_input_section input_text" if "examples \<noteq> []"
    using that by (simp add: prompt_parts_def new_input_section_def append_examples_blocks)
  have "full_prompt env input_text []
      = preamble_text @ ''\<newline>'' @ no_examples_sentence @ ''\<newline>'' @ new_input_text input_text"
    unfolding full_prompt_def none join_preamble
    by (simp add: lines_of_new_input)
  moreover have "examples \<noteq> [] \<longrightarrow>
      full_prompt env input_text examples
        = preamble_text
          @ concat (map (\<lambda>i. ''\<newline>'' @ block_text env (i + 1) (examples ! i))
              [0..<length examples])
          @ ''\<newline>'' @ new_input_text input_text"
  proof
    assume nonempty: "examples \<noteq> []"
    let ?blocks = "concat (map (\<lambda>i. example_block env (i + 1) (examples ! i))
      [0..<length examples])"
    have "full_prompt env input_text examples
        = join ''\<newline>'' (prompt_preamble @ (?blocks @ new_input_section input_text))"
      unfolding full_prompt_def some[OF nonempty] ..
    also have "\<dots> = preamble_text
        @ concat (map (\<lambda>q. ''\<newline>'' @ q) (?blocks @ new_input_section input_text))"
      by (rule join_preamble)
    also have "\<dots> = preamble_text
        @ concat (map (\<lambda>i. ''\<newline>'' @ block_text env (i + 1) (examples ! i))
            [0..<length examples])
        @ ''\<newline>'' @ new_input_text input_text"
      by (simp only: map_append concat_append lines_of_blocks lines_of_new_input)
    finally show "full_prompt env input_text examples
        = preamble_text
          @ concat (map (\<lambda>i. ''\<newline>'' @ block_text env (i + 1) (examples ! i))
              [0..<length examples])
          @ ''\<newline>'' @ new_input_text input_text" .
  qed
  moreover have "filter (\<lambda>p. startswith p ''\<newline>Example '')
        (prompt_parts env input_text examples)
      = map (\<lambda>i. example_label (i + 1)) [0..<length examples]"
  proof (cases "examples = []")
    case True
    with none show ?thesis
      by (simp add: filter_preamble filter_new_input filter_no_examples)
  next
    case False
    from some[OF False] show ?thesis
      by (simp add: filter_preamble filter_new_input filter_blocks)
  qed
  ultimately show ?thesis
    using none some by blast
qed

theorem full_prompt_blocks_witness:
  \<open>[annotated 7 ''Invoice 7'', annotated 3 ''Invoice 3''] \<noteq> []
   \<and> full_prompt (run_env None (Inl []) (Inl []) (Inl [])) ''Invoice 42''
        [annotated 7 ''Invoice 7'', annotated 3 ''Invoice 3'']
      = preamble_text
        @ ''\<newline>\<newline>Example 1:\<newline>Input Text:\<newline>```\<newline>Invoice 7\<newline>```\<newline>Output JSON:\<newline>```json\<newline>{\<newline>  "k": "Invoice 7"\<newline>}\<newline>```''
        @ ''\<newline>\<newline>Example 2:\<newline>Input Text:\<newline>```\<newline>Invoice 3\<newline>```\<newline>Output JSON:\<newline>```json\<newline>{\<newline>  "k": "Invoice 3"\<newline>}\<newline>```''
        @ ''\<newline>\<newline>--- New Input Text ---\<newline>```\<newline>Invoice 42\<newline>```\<newline>\<newline>--- Generated JSON Output ---''
   \<and> prompt_parts (run_env None (Inl []) (Inl []) (Inl [])) ''Invoice 42''
        [annotated 7 ''Invoice 7'', annotated 3 ''Invoice 3'']
      = prompt_preamble
        @ [''\<newline>Example 1:'',
           ''Input Text:'',
           ''```\<newline>Invoice 7\<newline>```'',
           ''Output JSON:'',
           ''```json\<newline>{\<newline>  "k": "Invoice 7"\<newline>}\<newline>```'',
           ''\<newline>Example 2:'',
           ''Input Text:'',
           ''```\<newline>Invoice 3\<newline>```'',
           ''Output JSON:'',
           ''```json\<newline>{\<newline>  "k": "Invoice 3"\<newline>}\<newline>```'']
        @ new_input_section ''Invoice 42''
   \<and> filter (\<lambda>p. startswith p ''\<newline>Example '')
        (prompt_parts (run_env None (Inl []) (Inl []) (Inl [])) ''Invoice 42''
           [annotated 7 ''Invoice 7'', annotated 3 ''Invoice 3''])
      = [''\<newline>Example 1:'', ''\<newline>Example 2:'']\<close>
proof -
  let ?env = "run_env None (Inl []) (Inl []) (Inl [])"
  let ?examples = "[annotated 7 ''Invoice 7'', annotated 3 ''Invoice 3'']"
  have digit_one: "str_nat (Suc 0) = ''1''"
    by code_simp
  have digit_two: "str_nat (Suc (Suc 0)) = ''2''"
    by code_simp
  have seven: \<open>json_dumps ?env (json_data (annotated 7 ''Invoice 7''))
      = ''{\<newline>  "k": "Invoice 7"\<newline>}''\<close>
    unfolding run_env_def env.simps annotated_def TrainingPair.simps by code_simp
  have three: \<open>json_dumps ?env (json_data (annotated 3 ''Invoice 3''))
      = ''{\<newline>  "k": "Invoice 3"\<newline>}''\<close>
    unfolding run_env_def env.simps annotated_def TrainingPair.simps by code_simp
  have texts: "text_content (annotated 7 ''Invoice 7'') = ''Invoice 7''"
    "text_content (annotated 3 ''Invoice 3'') = ''Invoice 3''"
    by (simp_all add: annotated_def)
  have indices: "[0..<length ?examples] = [0, Suc 0]"
    by (simp add: upt_shift del: upt_Suc)
  note claim = full_prompt_blocks[of ?env "''Invoice 42''" ?examples, unfolded indices]
  have nonempty: "?examples \<noteq> []"
    by simp
  from claim nonempty have whole: "full_prompt ?env ''Invoice 42'' ?examples
      = preamble_text
        @ concat (map (\<lambda>i. ''\<newline>'' @ block_text ?env (i + 1) (?examples ! i)) [0, Suc 0])
        @ ''\<newline>'' @ new_input_text ''Invoice 42''"
    by blast
  from claim nonempty have parts: "prompt_parts ?env ''Invoice 42'' ?examples
      = prompt_preamble
        @ concat (map (\<lambda>i. example_block ?env (i + 1) (?examples ! i)) [0, Suc 0])
        @ new_input_section ''Invoice 42''"
    by blast
  from claim have labels: "filter (\<lambda>p. startswith p ''\<newline>Example '')
        (prompt_parts ?env ''Invoice 42'' ?examples)
      = map (\<lambda>i. example_label (i + 1)) [0, Suc 0]"
    by blast
  from whole have prompt: \<open>full_prompt ?env ''Invoice 42'' ?examples
      = preamble_text
        @ ''\<newline>\<newline>Example 1:\<newline>Input Text:\<newline>```\<newline>Invoice 7\<newline>```\<newline>Output JSON:\<newline>```json\<newline>{\<newline>  "k": "Invoice 7"\<newline>}\<newline>```''
        @ ''\<newline>\<newline>Example 2:\<newline>Input Text:\<newline>```\<newline>Invoice 3\<newline>```\<newline>Output JSON:\<newline>```json\<newline>{\<newline>  "k": "Invoice 3"\<newline>}\<newline>```''
        @ ''\<newline>\<newline>--- New Input Text ---\<newline>```\<newline>Invoice 42\<newline>```\<newline>\<newline>--- Generated JSON Output ---''\<close>
    by (simp add: block_text_def new_input_text_def digit_one digit_two seven three texts)
  from parts have blocks: \<open>prompt_parts ?env ''Invoice 42'' ?examples
      = prompt_preamble
        @ [''\<newline>Example 1:'',
           ''Input Text:'',
           ''```\<newline>Invoice 7\<newline>```'',
           ''Output JSON:'',
           ''```json\<newline>{\<newline>  "k": "Invoice 7"\<newline>}\<newline>```'',
           ''\<newline>Example 2:'',
           ''Input Text:'',
           ''```\<newline>Invoice 3\<newline>```'',
           ''Output JSON:'',
           ''```json\<newline>{\<newline>  "k": "Invoice 3"\<newline>}\<newline>```'']
        @ new_input_section ''Invoice 42''\<close>
    by (simp add: example_block_def example_label_def digit_one digit_two seven three texts)
  from labels have found: "filter (\<lambda>p. startswith p ''\<newline>Example '')
        (prompt_parts ?env ''Invoice 42'' ?examples)
      = [''\<newline>Example 1:'', ''\<newline>Example 2:'']"
    by (simp add: example_label_def digit_one digit_two)
  from nonempty prompt blocks found show ?thesis
    by (intro conjI)
qed

section \<open>The generation\<close>

text \<open>
  Claim C8. With no API key (the variable unset, or set to the empty string) the
  generation returns the payload that says that the key is not configured, for every
  input text, every list of examples and every model name. It has no effect, so the
  service is not called, and the result stays the same when the encoder that builds
  the prompt and the service are replaced by any others: neither is used.
\<close>

theorem generate_without_key:
  assumes "GEMINI_API_KEY env = None \<or> GEMINI_API_KEY env = Some []"
  shows "generate_json_with_gemini env input_text examples model_name
      = (error_payload ''Gemini API key not configured on server.'', [])
    \<and> generate_json_with_gemini
        (env\<lparr>json_dumps := encoder, generate_content_async := service\<rparr>)
        input_text examples model_name
      = (error_payload ''Gemini API key not configured on server.'', [])
    \<and> GenerateContent model_name (full_prompt env input_text examples)
        \<notin> set (snd (generate_json_with_gemini env input_text examples model_name))"
  using assms by (auto simp: generate_json_with_gemini_def)

theorem generate_without_key_witness:
  \<open>GEMINI_API_KEY (run_env None (Inl []) (Inl []) (completion ''{"a": 1}'')) = None
   \<and> generate_json_with_gemini (run_env None (Inl []) (Inl []) (completion ''{"a": 1}''))
        ''Invoice 42'' [annotated 1 ''Invoice 1''] ''gemini-1.5-flash''
      = (JObject [(''error'', JString ''Gemini API key not configured on server.'')], [])
   \<and> GEMINI_API_KEY (run_env (Some []) (Inl []) (Inl []) (completion ''{"a": 1}'')) = Some []
   \<and> generate_json_with_gemini (run_env (Some []) (Inl []) (Inl []) (completion ''{"a": 1}''))
        ''Invoice 42'' [annotated 1 ''Invoice 1''] ''gemini-1.5-flash''
      = (JObject [(''error'', JString ''Gemini API key not configured on server.'')], [])\<close>
proof -
  let ?unset = \<open>run_env None (Inl []) (Inl []) (completion ''{"a": 1}'')\<close>
  let ?blank = \<open>run_env (Some []) (Inl []) (Inl []) (completion ''{"a": 1}'')\<close>
  have unset: "GEMINI_API_KEY ?unset = None"
    by (simp add: run_env_def)
  have blank: "GEMINI_API_KEY ?blank = Some []"
    by (simp add: run_env_def)
  from unset have "GEMINI_API_KEY ?unset = None \<or> GEMINI_API_KEY ?unset = Some []"
    by simp
  from generate_without_key[OF this] have a:
    "generate_json_with_gemini ?unset ''Invoice 42'' [annotated 1 ''Invoice 1'']
       ''gemini-1.5-flash''
     = (error_payload ''Gemini API key not configured on server.'', [])"
    by blast
  from blank have "GEMINI_API_KEY ?blank = None \<or> GEMINI_API_KEY ?blank = Some []"
    by simp
  from generate_without_key[OF this] have b:
    "generate_json_with_gemini ?blank ''Invoice 42'' [annotated 1 ''Invoice 1'']
       ''gemini-1.5-flash''
     = (error_payload ''Gemini API key not configured on server.'', [])"
    by blast
  from unset a blank b show ?thesis
    by (simp add: error_payload_def)
qed

text \<open>
  Without a fence marker at either end of the stripped completion, the text that the
  parser's failure returns is the completion.
\<close>

lemma remove_fences_plain:
  "\<not> startswith (strip text) ''```json'' \<Longrightarrow> \<not> endswith (strip text) ''```'' \<Longrightarrow>
     remove_fences text = text"
  by (simp add: remove_fences_def)

text \<open>
  Claim C2, evaluated on the code. The service answers with a completion in fence
  markers whose JSON text is cut short. \<open>json.loads\<close> is called on the text between the
  markers and raises \<open>JSONDecodeError\<close>, and the payload's \<open>raw_response\<close> is the text left
  after both markers were removed, which is not the completion that the service sent.
\<close>

theorem generate_raw_response_stripped:
  \<open>generate_json_with_gemini
     (json_calls
        (run_env (Some ''secret'') (Inl []) (Inl [])
           (completion ''```json\<newline>{"a": 1\<newline>```''))
        [(''{"a": 1'', JSONDecodeError)] [])
     ''Invoice 42'' [] ''gemini-1.5-flash''
   = (JObject [(''error'', JString ''Failed to parse JSON from AI response.''),
               (''raw_response'', JString ''{"a": 1\<newline>'')],
      [GenerateContent ''gemini-1.5-flash''
         (full_prompt
            (json_calls
               (run_env (Some ''secret'') (Inl []) (Inl [])
                  (completion ''```json\<newline>{"a": 1\<newline>```''))
               [(''{"a": 1'', JSONDecodeError)] [])
            ''Invoice 42'' [])])
   \<and> ''{"a": 1\<newline>'' \<noteq> ''```json\<newline>{"a": 1\<newline>```''\<close>
proof -
  have fences: \<open>remove_fences ''```json\<newline>{"a": 1\<newline>```'' = ''{"a": 1\<newline>''\<close>
    by code_simp
  have stripped: \<open>strip ''{"a": 1\<newline>'' = ''{"a": 1''\<close>
    by code_simp
  show ?thesis
    by (simp add: generate_json_with_gemini_def json_calls_def run_env_def completion_def
        answers_def Let_def fences stripped error_payload_raw_def)
qed

section \<open>The handlers\<close>

lemma upload_message_finite: "\<not> nonfinite (upload_message doc_file json_file)"
  by (simp add: upload_message_def)

text \<open>
  Claim C10, as stated, fails on the code. The service generates an object whose key
  \<open>error\<close> holds \<open>null\<close>. The handler raises the 500 with \<open>detail=None\<close>, which the
  constructor of the exception replaces by the phrase of the status: the detail is not
  the value under the key.
\<close>

theorem process_query_error_null:
  \<open>fst (process_query
       (json_calls
          (run_env (Some ''secret'') (Inr [Inr ''Invoice 42'']) (Inl [])
             (completion ''{"error": null}''))
          [(''{"error": null}'', Value (JObject [(''error'', JNull)]))] [])
       empty_store pdf_upload)
   = Inl (HTTPException 500 (JString ''Internal Server Error''))
   \<and> HTTPException 500 (JString ''Internal Server Error'') \<noteq> HTTPException 500 JNull\<close>
proof -
  have page: "strip ''Invoice 42\<newline>'' = ''Invoice 42''"
    by code_simp
  have kept: \<open>strip (remove_fences ''{"error": null}'') = ''{"error": null}''\<close>
    by code_simp
  show ?thesis
    by (simp add: process_query_def extract_text_from_upload_def extract_text_from_pdf_def
        generate_json_with_gemini_def json_calls_def run_env_def completion_def answers_def
        pdf_upload_def SUPPORTED_DOC_TYPES_def detail_500_def Let_def page kept)
qed

text \<open>
  Claim C10, amended. Whenever the service returns a candidate whose text, after the
  removal of the fence markers, decodes to an object with the key \<open>error\<close>, the query
  handler raises the error 500, and the detail is the value under that key, or the
  phrase \<open>Internal Server Error\<close> when that value is \<open>null\<close>. The value was generated, not
  an error of the program, and is not returned as a reply 200.
\<close>

theorem process_query_error_key:
  assumes "extract_text_from_upload env doc_file = (Inr input_text, ev)"
    and "GEMINI_API_KEY env = Some key" and "key \<noteq> []"
    and "generate_content_async env ''gemini-1.5-flash''
           (full_prompt env input_text (get_training_examples db 5)) = Inr response"
    and "candidates response \<noteq> 0"
    and "response_text response = Inr text"
    and "json_loads env (strip (remove_fences text)) = Value (JObject items)"
    and "map_of items ''error'' = Some message"
  shows "fst (process_query env db doc_file)
    = Inl (HTTPException 500
        (if message = JNull then JString ''Internal Server Error'' else message))"
  using assms
  by (simp add: process_query_def generate_json_with_gemini_def detail_500_def Let_def)

theorem process_query_error_key_witness:
  \<open>extract_text_from_upload
     (json_calls
        (run_env (Some ''secret'') (Inr [Inr ''Invoice 42'']) (Inl [])
           (completion ''{"error": "Gemini API key not configured on server."}''))
        [(''{"error": "Gemini API key not configured on server."}'',
          Value (JObject [(''error'', JString ''Gemini API key not configured on server.'')]))]
        [])
     pdf_upload
   = (Inr ''Invoice 42'', [Read (Some ''report.pdf''), Close])
   \<and> strip (remove_fences ''{"error": "Gemini API key not configured on server."}'')
      = ''{"error": "Gemini API key not configured on server."}''
   \<and> fst (process_query
        (json_calls
           (run_env (Some ''secret'') (Inr [Inr ''Invoice 42'']) (Inl [])
              (completion ''{"error": "Gemini API key not configured on server."}''))
           [(''{"error": "Gemini API key not configured on server."}'',
             Value (JObject
               [(''error'', JString ''Gemini API key not configured on server.'')]))]
           [])
        empty_store pdf_upload)
      = Inl (HTTPException 500 (JString ''Gemini API key not configured on server.''))
   \<and> fst (process_query
        (run_env None (Inr [Inr ''Invoice 42'']) (Inl [])
           (completion ''{"error": "Gemini API key not configured on server."}''))
        empty_store pdf_upload)
      = Inl (HTTPException 500 (JString ''Gemini API key not configured on server.''))\<close>
proof -
  let ?text = \<open>''{"error": "Gemini API key not configured on server."}''\<close>
  let ?items = "[(''error'', JString ''Gemini API key not configured on server.'')]"
  let ?nokey = "run_env None (Inr [Inr ''Invoice 42'']) (Inl []) (completion ?text)"
  let ?env = "json_calls
    (run_env (Some ''secret'') (Inr [Inr ''Invoice 42'']) (Inl []) (completion ?text))
    [(?text, Value (JObject ?items))] []"
  let ?response = "\<lparr>candidates = 1, prompt_feedback = None, response_text = Inr ?text\<rparr>"
  have page: "strip ''Invoice 42\<newline>'' = ''Invoice 42''"
    by code_simp
  have kept: "strip (remove_fences ?text) = ?text"
    by code_simp
  have extracted: "extract_text_from_upload ?env pdf_upload
      = (Inr ''Invoice 42'', [Read (Some ''report.pdf''), Close])"
    by (simp add: extract_text_from_upload_def extract_text_from_pdf_def json_calls_def
        run_env_def pdf_upload_def SUPPORTED_DOC_TYPES_def page)
  have key: "GEMINI_API_KEY ?env = Some ''secret''"
    by (simp add: json_calls_def run_env_def)
  have nonempty: "''secret'' \<noteq> []"
    by simp
  have called: "generate_content_async ?env ''gemini-1.5-flash''
      (full_prompt ?env ''Invoice 42'' (get_training_examples empty_store 5)) = Inr ?response"
    by (simp add: json_calls_def run_env_def completion_def)
  have candidate: "candidates ?response \<noteq> 0"
    by simp
  have answer: "response_text ?response = Inr ?text"
    by simp
  have decoded: "json_loads ?env (strip (remove_fences ?text)) = Value (JObject ?items)"
    unfolding kept by (simp add: json_calls_def answers_def)
  have under: "map_of ?items ''error''
      = Some (JString ''Gemini API key not configured on server.'')"
    by simp
  from process_query_error_key
    [OF extracted key nonempty called candidate answer decoded under]
  have generated: "fst (process_query ?env empty_store pdf_upload)
      = Inl (HTTPException 500 (JString ''Gemini API key not configured on server.''))"
    by simp
  have unconfigured: "fst (process_query ?nokey empty_store pdf_upload)
      = Inl (HTTPException 500 (JString ''Gemini API key not configured on server.''))"
    by (simp add: process_query_def extract_text_from_upload_def extract_text_from_pdf_def
        generate_json_with_gemini_def error_payload_def run_env_def pdf_upload_def
        SUPPORTED_DOC_TYPES_def detail_500_def page Let_def)
  from extracted kept generated unconfigured show ?thesis
    by (intro conjI)
qed

text \<open>The query handler answers 400 to an unsupported type of document only.\<close>

lemma process_query_400_unsupported_only:
  assumes "fst (process_query env db doc_file) = Inl e" and "status_code e = 400"
  shows "content_type doc_file \<notin> set (map Some SUPPORTED_DOC_TYPES)"
proof (rule ccontr)
  assume "\<not> content_type doc_file \<notin> set (map Some SUPPORTED_DOC_TYPES)"
  then have supported: "content_type doc_file \<in> set (map Some SUPPORTED_DOC_TYPES)"
    by simp
  show False
  proof (cases "read doc_file")
    case (Inl x)
    with supported assms show False
      by (auto simp: process_query_def extract_text_from_upload_def)
  next
    case (Inr content)
    with supported assms show False
      by (auto simp: process_query_def extract_text_from_upload_def Let_def
          split: prod.splits option.splits sum.splits)
  qed
qed

text \<open>
  Claim C1, evaluated on the code. The document is a PDF that the reader rejects, so the
  extracted text is the empty string. The handler does not answer 400: the test
  \<open>not input_text and input_text != ""\<close> is false for the empty string, the service is
  called with a prompt for the empty text, and the generated value is returned with
  the status 200.
\<close>

theorem process_query_empty_text_proceeds:
  \<open>extract_text_from_upload
     (json_calls
        (run_env (Some ''secret'') (Inl ''EOF marker not found'') (Inl [])
           (completion ''{"title": "untitled"}''))
        [(''{"title": "untitled"}'', Value (JObject [(''title'', JString ''untitled'')]))] [])
     pdf_upload
   = (Inr [], [Read (Some ''report.pdf''), Close])
   \<and> process_query
       (json_calls
          (run_env (Some ''secret'') (Inl ''EOF marker not found'') (Inl [])
             (completion ''{"title": "untitled"}''))
          [(''{"title": "untitled"}'', Value (JObject [(''title'', JString ''untitled'')]))]
          [])
       empty_store pdf_upload
     = (Inr (JSONResponse 200 (JObject [(''title'', JString ''untitled'')])),
        [Read (Some ''report.pdf''), Close,
         GenerateContent ''gemini-1.5-flash''
           (full_prompt
              (json_calls
                 (run_env (Some ''secret'') (Inl ''EOF marker not found'') (Inl [])
                    (completion ''{"title": "untitled"}''))
                 [(''{"title": "untitled"}'',
                   Value (JObject [(''title'', JString ''untitled'')]))]
                 [])
              [] [])])\<close>
proof -
  have kept: \<open>strip (remove_fences ''{"title": "untitled"}'') = ''{"title": "untitled"}''\<close>
    by code_simp
  show ?thesis
    by (simp add: process_query_def extract_text_from_upload_def extract_text_from_pdf_def
        generate_json_with_gemini_def get_training_examples_def query_recent_def
        json_calls_def run_env_def completion_def answers_def empty_store_def pdf_upload_def
        SUPPORTED_DOC_TYPES_def json_response_def Let_def kept)
qed

text \<open>
  Claim C3, as stated, fails on the code: the upload of a PDF that the reader rejects,
  with a well-formed annotation, is answered 201 and stores a row whose text is the
  empty string.
\<close>

theorem upload_stores_empty_text:
  \<open>upload_training_data
     (json_calls (run_env None (Inl ''EOF marker not found'') (Inl []) (Inl [])) []
        [(''{"k": "v"}'', Value (JObject [(''k'', JString ''v'')]))])
     empty_store pdf_upload (json_upload (Some ''application/json'') ''{"k": "v"}'')
   = (Inr (JSONResponse 201
        (upload_message pdf_upload (json_upload (Some ''application/json'') ''{"k": "v"}''))),
      \<lparr>rows = [\<lparr>pair_id = 1, text_content = [], json_data = JObject [(''k'', JString ''v'')],
                original_filename = Some ''report.pdf''\<rparr>],
       commit_error = None, refresh_error = None, query_error = None\<rparr>,
      [Read (Some ''report.pdf''), Close, Read (Some ''report.json'')])\<close>
  by (simp add: upload_training_data_def extract_text_from_upload_def
      extract_text_from_pdf_def parse_json_upload_def create_training_pair_def
      json_response_def upload_message_finite json_calls_def run_env_def answers_def
      empty_store_def pdf_upload_def json_upload_def SUPPORTED_DOC_TYPES_def next_id_def
      Let_def)

text \<open>
  Claim C3, amended. A row persisted through the upload path holds as its text exactly
  the string that the extraction returned for the uploaded document, be it empty or
  not. When the extraction and the JSON parser succeed and the commit does not raise,
  the handler appends one row with that text, the decoded annotation and the
  document's file name, and answers 201 unless the refresh raises. In every execution
  the table is left as it was or has this one row more, and it has the row only when
  the extraction returned its text.
\<close>

theorem upload_stores_extracted_text:
  "(extract_text_from_upload env doc_file = (Inr text, ev1)
      \<and> parse_json_upload env json_file = (Inr v, ev2) \<and> commit_error db = None \<longrightarrow>
    fst (snd (upload_training_data env db doc_file json_file))
      = db\<lparr>rows := rows db @ [\<lparr>pair_id = next_id (rows db), text_content = text,
          json_data = v, original_filename = filename doc_file\<rparr>]\<rparr>
    \<and> (refresh_error db = None \<longrightarrow>
         fst (upload_training_data env db doc_file json_file)
           = Inr (JSONResponse 201 (upload_message doc_file json_file))))
   \<and> (rows (fst (snd (upload_training_data env db doc_file json_file))) = rows db
       \<or> (\<exists>extracted annotation ev1 ev2.
            extract_text_from_upload env doc_file = (Inr extracted, ev1)
            \<and> parse_json_upload env json_file = (Inr annotation, ev2)
            \<and> rows (fst (snd (upload_training_data env db doc_file json_file)))
              = rows db @ [\<lparr>pair_id = next_id (rows db), text_content = extracted,
                  json_data = annotation, original_filename = filename doc_file\<rparr>]))"
proof (intro conjI impI)
  assume a: "extract_text_from_upload env doc_file = (Inr text, ev1)
    \<and> parse_json_upload env json_file = (Inr v, ev2) \<and> commit_error db = None"
  then show "fst (snd (upload_training_data env db doc_file json_file))
      = db\<lparr>rows := rows db @ [\<lparr>pair_id = next_id (rows db), text_content = text,
          json_data = v, original_filename = filename doc_file\<rparr>]\<rparr>"
    by (simp add: upload_training_data_def create_training_pair_def json_response_def
        upload_message_finite Let_def split: option.splits)
  assume "refresh_error db = None"
  with a show "fst (upload_training_data env db doc_file json_file)
      = Inr (JSONResponse 201 (upload_message doc_file json_file))"
    by (simp add: upload_training_data_def create_training_pair_def json_response_def
        upload_message_finite Let_def)
next
  obtain r1 ev1 where e: "extract_text_from_upload env doc_file = (r1, ev1)"
    by (cases "extract_text_from_upload env doc_file")
  obtain r2 ev2 where p: "parse_json_upload env json_file = (r2, ev2)"
    by (cases "parse_json_upload env json_file")
  show "rows (fst (snd (upload_training_data env db doc_file json_file))) = rows db
      \<or> (\<exists>extracted annotation ev1 ev2.
           extract_text_from_upload env doc_file = (Inr extracted, ev1)
           \<and> parse_json_upload env json_file = (Inr annotation, ev2)
           \<and> rows (fst (snd (upload_training_data env db doc_file json_file)))
             = rows db @ [\<lparr>pair_id = next_id (rows db), text_content = extracted,
                 json_data = annotation, original_filename = filename doc_file\<rparr>])"
  proof (cases r1)
    case (Inl x)
    with e show ?thesis
      by (simp add: upload_training_data_def)
  next
    case extracted: (Inr extracted)
    show ?thesis
    proof (cases r2)
      case (Inl x)
      with e p extracted show ?thesis
        by (simp add: upload_training_data_def)
    next
      case (Inr annotation)
      with e p extracted show ?thesis
        by (simp add: upload_training_data_def create_training_pair_def json_response_def
            upload_message_finite Let_def split: option.splits)
    qed
  qed
qed

theorem upload_stores_extracted_text_witness:
  \<open>extract_text_from_upload
     (json_calls (run_env None (Inr [Inr ''Invoice 42'']) (Inl []) (Inl [])) []
        [(''{"k": "v"}'', Value (JObject [(''k'', JString ''v'')]))])
     pdf_upload
   = (Inr ''Invoice 42'', [Read (Some ''report.pdf''), Close])
   \<and> parse_json_upload
        (json_calls (run_env None (Inr [Inr ''Invoice 42'']) (Inl []) (Inl [])) []
           [(''{"k": "v"}'', Value (JObject [(''k'', JString ''v'')]))])
        (json_upload (Some ''application/json'') ''{"k": "v"}'')
      = (Inr (JObject [(''k'', JString ''v'')]), [Read (Some ''report.json'')])
   \<and> commit_error empty_store = None
   \<and> refresh_error empty_store = None
   \<and> fst (snd (upload_training_data
        (json_calls (run_env None (Inr [Inr ''Invoice 42'']) (Inl []) (Inl [])) []
           [(''{"k": "v"}'', Value (JObject [(''k'', JString ''v'')]))])
        empty_store pdf_upload (json_upload (Some ''application/json'') ''{"k": "v"}'')))
      = \<lparr>rows = [\<lparr>pair_id = 1, text_content = ''Invoice 42'',
                   json_data = JObject [(''k'', JString ''v'')],
                   original_filename = Some ''report.pdf''\<rparr>],
         commit_error = None, refresh_error = None, query_error = None\<rparr>
   \<and> fst (upload_training_data
        (json_calls (run_env None (Inr [Inr ''Invoice 42'']) (Inl []) (Inl [])) []
           [(''{"k": "v"}'', Value (JObject [(''k'', JString ''v'')]))])
        empty_store pdf_upload (json_upload (Some ''application/json'') ''{"k": "v"}''))
      = Inr (JSONResponse 201
          (upload_message pdf_upload
             (json_upload (Some ''application/json'') ''{"k": "v"}'')))\<close>
proof -
  let ?env = \<open>json_calls (run_env None (Inr [Inr ''Invoice 42'']) (Inl []) (Inl [])) []
    [(''{"k": "v"}'', Value (JObject [(''k'', JString ''v'')]))]\<close>
  let ?json = \<open>json_upload (Some ''application/json'') ''{"k": "v"}''\<close>
  have page: "strip ''Invoice 42\<newline>'' = ''Invoice 42''"
    by code_simp
  have extracted: "extract_text_from_upload ?env pdf_upload
      = (Inr ''Invoice 42'', [Read (Some ''report.pdf''), Close])"
    by (simp add: extract_text_from_upload_def extract_text_from_pdf_def json_calls_def
        run_env_def pdf_upload_def SUPPORTED_DOC_TYPES_def page)
  have annotation: "parse_json_upload ?env ?json
      = (Inr (JObject [(''k'', JString ''v'')]), [Read (Some ''report.json'')])"
    by (simp add: parse_json_upload_def json_calls_def run_env_def answers_def
        json_upload_def)
  have commits: "commit_error empty_store = None"
    by (simp add: empty_store_def)
  have refreshes: "refresh_error empty_store = None"
    by (simp add: empty_store_def)
  note claim = upload_stores_extracted_text
    [of ?env pdf_upload "''Invoice 42''" _ ?json _ _ empty_store]
  from claim extracted annotation commits
  have stored: "fst (snd (upload_training_data ?env empty_store pdf_upload ?json))
      = empty_store\<lparr>rows := rows empty_store
          @ [\<lparr>pair_id = next_id (rows empty_store), text_content = ''Invoice 42'',
               json_data = JObject [(''k'', JString ''v'')],
               original_filename = filename pdf_upload\<rparr>]\<rparr>"
    by blast
  from claim extracted annotation commits refreshes
  have replied: "fst (upload_training_data ?env empty_store pdf_upload ?json)
      = Inr (JSONResponse 201 (upload_message pdf_upload ?json))"
    by blast
  from stored have kept: "fst (snd (upload_training_data ?env empty_store pdf_upload ?json))
      = \<lparr>rows = [\<lparr>pair_id = 1, text_content = ''Invoice 42'',
                   json_data = JObject [(''k'', JString ''v'')],
                   original_filename = Some ''report.pdf''\<rparr>],
         commit_error = None, refresh_error = None, query_error = None\<rparr>"
    by (simp add: empty_store_def next_id_def pdf_upload_def)
  from extracted annotation commits refreshes kept replied show ?thesis
    by (intro conjI)
qed

end
